theory Spec2Isabelle
  imports Main
begin

section \<open>The API client of \<open>04-projects/api-integration.ts\<close>\<close>

text \<open>
  The class \<open>ApiClient\<close> is embedded as pure functions over explicit state. Three
  things of the host are inputs of the model:
  \<^item> \<open>fetch\<close>, the transport: a function from the number of earlier invocations, the URL
    and the request options to what that invocation does;
  \<^item> \<open>Date.now()\<close>: the readings are arguments of the functions that read the clock;
  \<^item> \<open>setTimeout\<close>: the lengths of the timers that are armed are logged.
  JavaScript numbers are modelled as \<open>int\<close> (milliseconds and counts; \<open>NaN\<close>, infinities
  and fractions are left out), and \<open>console.log\<close> is not modelled.
\<close>

subsection \<open>JavaScript values\<close>

datatype jsval =
    JUndefined
  | JNull
  | JBool bool
  | JNum int
  | JStr string
  | JArr "jsval list"
  | JObj "(string \<times> jsval) list"

text \<open>Truthiness, as \<open>if (v)\<close>, \<open>v || d\<close> and \<open>v && w\<close> test it.\<close>

fun truthy :: "jsval \<Rightarrow> bool" where
  "truthy JUndefined = False"
| "truthy JNull = False"
| "truthy (JBool b) = b"
| "truthy (JNum n) = (n \<noteq> 0)"
| "truthy (JStr s) = (s \<noteq> [])"
| "truthy (JArr xs) = True"
| "truthy (JObj kvs) = True"

text \<open>\<open>c.field || d\<close> on an optional number: an absent field reads \<open>undefined\<close>.\<close>

fun num_or :: "int option \<Rightarrow> int \<Rightarrow> int" where
  "num_or None d = d"
| "num_or (Some n) d = (if n \<noteq> 0 then n else d)"

text \<open>Reading an optional property: an absent one reads \<open>undefined\<close>.\<close>

fun read_prop :: "jsval option \<Rightarrow> jsval" where
  "read_prop None = JUndefined"
| "read_prop (Some v) = v"

text \<open>\<open>v || {}\<close>\<close>

definition or_empty_object :: "jsval \<Rightarrow> jsval" where
  "or_empty_object v = (if truthy v then v else JObj [])"

subsection \<open>\<open>JSON.stringify\<close> on these values\<close>

fun show_nat :: "nat \<Rightarrow> string" where
  "show_nat n =
     (if n < 10 then [''0123456789'' ! n]
      else show_nat (n div 10) @ [''0123456789'' ! (n mod 10)])"

definition show_int :: "int \<Rightarrow> string" where
  "show_int i = (if i < 0 then CHR ''-'' # show_nat (nat (- i)) else show_nat (nat i))"

text \<open>
  String quoting: the double quote and the backslash are escaped (control characters,
  which \<open>JSON.stringify\<close> escapes too, are left as they are).
\<close>

fun escape_char :: "char \<Rightarrow> string" where
  "escape_char c =
     (if c = CHR 0x22 then [CHR 0x5C, CHR 0x22]
      else if c = CHR 0x5C then [CHR 0x5C, CHR 0x5C]
      else [c])"

definition quote :: "string \<Rightarrow> string" where
  "quote s = CHR 0x22 # concat (map escape_char s) @ [CHR 0x22]"

fun join_comma :: "string list \<Rightarrow> string" where
  "join_comma [] = []"
| "join_comma [s] = s"
| "join_comma (s # t # ss) = s @ '','' @ join_comma (t # ss)"

text \<open>
  An \<open>undefined\<close> array element is written \<open>null\<close>, an \<open>undefined\<close> property is
  skipped; \<open>JSON.stringify(undefined)\<close> itself is \<open>undefined\<close>, which a template
  literal prints as the word.
\<close>

fun JSON_stringify :: "jsval \<Rightarrow> string" where
  "JSON_stringify JUndefined = ''undefined''"
| "JSON_stringify JNull = ''null''"
| "JSON_stringify (JBool b) = (if b then ''true'' else ''false'')"
| "JSON_stringify (JNum n) = show_int n"
| "JSON_stringify (JStr s) = quote s"
| "JSON_stringify (JArr xs) =
     ''['' @ join_comma (map (\<lambda>x. if x = JUndefined then ''null'' else JSON_stringify x) xs) @ '']''"
| "JSON_stringify (JObj kvs) =
     ''{'' @ join_comma (map (\<lambda>kv. quote (fst kv) @ '':'' @ JSON_stringify (snd kv))
                          (filter (\<lambda>kv. snd kv \<noteq> JUndefined) kvs)) @ ''}''"

declare show_nat.simps [simp del]

subsection \<open>Type definitions\<close>

datatype HttpMethod = GET | POST | PUT | PATCH | DELETE

fun method_name :: "HttpMethod \<Rightarrow> string" where
  "method_name GET = ''GET''"
| "method_name POST = ''POST''"
| "method_name PUT = ''PUT''"
| "method_name PATCH = ''PATCH''"
| "method_name DELETE = ''DELETE''"

text \<open>\<open>class ApiError extends Error\<close>: message, status and the optional response.\<close>

datatype ApiError = ApiError (err_message: string) (err_status: int) (err_response: "jsval option")

text \<open>
  What a \<open>catch\<close> can receive: an \<open>ApiError\<close>, another \<open>Error\<close> with its name and
  message, or a value that is not an \<open>Error\<close>, whose \<open>name\<close> can be read and is not
  \<open>"AbortError"\<close>. A thrown \<open>null\<close> or \<open>undefined\<close>, on which the read of \<open>name\<close>
  throws in its turn, is left out.
\<close>

datatype thrown = Api ApiError | JsError string string | NonError

text \<open>
  \<open>interface RequestConfig\<close>; an optional field is an \<open>option\<close>. The field
  \<open>method\<close> is \<open>http_method\<close> here, \<open>method\<close> being a keyword of the proof language.
\<close>

record RequestConfig =
  http_method :: HttpMethod
  headers :: "(string \<rightharpoonup> string) option"
  body :: "jsval option"
  timeout :: "int option"
  retries :: "int option"
  retryDelay :: "int option"

text \<open>\<open>Partial<RequestConfig>\<close>, the type of the entry points' \<open>config\<close>.\<close>

record PartialConfig =
  p_method :: "HttpMethod option"
  p_headers :: "(string \<rightharpoonup> string) option"
  p_body :: "jsval option"
  p_timeout :: "int option"
  p_retries :: "int option"
  p_retryDelay :: "int option"

text \<open>The default \<open>config = {}\<close>.\<close>

definition empty_config :: PartialConfig where
  "empty_config = \<lparr>p_method = None, p_headers = None, p_body = None, p_timeout = None,
     p_retries = None, p_retryDelay = None\<rparr>"

record CacheEntry =
  data :: jsval
  timestamp :: int
  expiresAt :: int

text \<open>
  The \<open>RequestInit\<close> handed to \<open>fetch\<close> (the abort signal is the same object in
  every attempt of a call and is not a field here).
\<close>

record RequestInit =
  req_method :: HttpMethod
  req_headers :: "string \<rightharpoonup> string"
  req_body :: "string option"

text \<open>
  The transport's \<open>Response\<close>: \<open>json()\<close> returns the parsed body or throws; \<open>ok\<close> is
  the status being in the range 200 to 299.
\<close>

record Response =
  resp_status :: int
  resp_statusText :: string
  resp_headers :: "(string \<times> string) list"
  resp_json :: "thrown + jsval"

definition ok :: "Response \<Rightarrow> bool" where
  "ok r = (200 \<le> resp_status r \<and> resp_status r \<le> 299)"

text \<open>\<open>interface ApiResponse<T>\<close>\<close>

record ApiResponse =
  api_data :: jsval
  api_status :: int
  api_statusText :: string
  api_headers :: "string \<rightharpoonup> string"

subsection \<open>The host\<close>

text \<open>
  What one invocation of \<open>fetch\<close> does: it resolves with a response, rejects with a
  thrown value, or is still pending when the call's timer fires, and then the abort
  makes it reject with an \<open>AbortError\<close>.
\<close>

datatype outcome = Resolves Response | Rejects thrown | Pending

definition abort_error :: thrown where
  "abort_error = JsError ''AbortError'' ''This operation was aborted''"

fun settle :: "outcome \<Rightarrow> thrown + Response" where
  "settle (Resolves r) = Inr r"
| "settle (Rejects e) = Inl e"
| "settle Pending = Inl abort_error"

type_synonym transport = "nat \<Rightarrow> string \<Rightarrow> RequestInit \<Rightarrow> outcome"

text \<open>
  The effects on the host: the invocations of \<open>fetch\<close>, the waits of the retry wrapper
  and the lengths of the abort timers, each in the order they happen.
\<close>

record host =
  fetched :: "(string \<times> RequestInit) list"
  slept :: "int list"
  timers :: "int list"

definition host0 :: host where
  "host0 = \<lparr>fetched = [], slept = [], timers = []\<rparr>"

subsection \<open>\<open>class ApiClient\<close>\<close>

record ApiClient =
  baseUrl :: string
  defaultHeaders :: "string \<rightharpoonup> string"
  cache :: "string \<rightharpoonup> CacheEntry"
  defaultTimeout :: int

text \<open>\<open>baseUrl.replace(/\/$/, "")\<close>\<close>

definition strip_trailing_slash :: "string \<Rightarrow> string" where
  "strip_trailing_slash s = (if s \<noteq> [] \<and> last s = CHR ''/'' then butlast s else s)"

text \<open>The constructor.\<close>

definition new_ApiClient :: "string \<Rightarrow> (string \<rightharpoonup> string) \<Rightarrow> ApiClient" where
  "new_ApiClient url hdrs =
     \<lparr>baseUrl = strip_trailing_slash url,
      defaultHeaders = [''Content-Type'' \<mapsto> ''application/json''] ++ hdrs,
      cache = Map.empty,
      defaultTimeout = 30000\<rparr>"

text \<open>Spreading an optional header object: \<open>...undefined\<close> adds nothing.\<close>

fun spread :: "(string \<rightharpoonup> string) option \<Rightarrow> (string \<rightharpoonup> string)" where
  "spread None = Map.empty"
| "spread (Some h) = h"

text \<open>
  \<open>fetchWithRetry\<close>: one invocation of the transport; a thrown value of any kind is
  retried, after a wait of \<open>delay\<close>, while \<open>retries > 0\<close>.
\<close>

function fetchWithRetry ::
  "transport \<Rightarrow> string \<Rightarrow> RequestInit \<Rightarrow> int \<Rightarrow> int \<Rightarrow> host \<Rightarrow> (thrown + Response) \<times> host" where
  "fetchWithRetry f url options n delay h =
     (let h1 = h\<lparr>fetched := fetched h @ [(url, options)]\<rparr> in
      case settle (f (length (fetched h)) url options) of
        Inr response \<Rightarrow> (Inr response, h1)
      | Inl error \<Rightarrow>
          if n > 0
          then fetchWithRetry f url options (n - 1) (delay * 2) (h1\<lparr>slept := slept h1 @ [delay]\<rparr>)
          else (Inl error, h1))"
  by pat_completeness auto
termination
  by (relation "measure (\<lambda>(f, url, options, n, delay, h). nat n)") auto

declare fetchWithRetry.simps [simp del]

text \<open>The \<open>catch\<close> block of \<open>request\<close>.\<close>

fun classify :: "thrown \<Rightarrow> ApiError" where
  "classify (Api e) = e"
| "classify (JsError name msg) =
     (if name = ''AbortError'' then ApiError ''Request timeout'' 408 None
      else ApiError msg 0 None)"
| "classify NonError = ApiError ''Unknown error'' 0 None"

text \<open>\<open>parseHeaders\<close>: a later value of a key overwrites an earlier one.\<close>

definition parseHeaders :: "(string \<times> string) list \<Rightarrow> (string \<rightharpoonup> string)" where
  "parseHeaders hs = fold (\<lambda>kv result. result(fst kv \<mapsto> snd kv)) hs Map.empty"

text \<open>The options \<open>request\<close> prepares.\<close>

definition request_options :: "ApiClient \<Rightarrow> RequestConfig \<Rightarrow> RequestInit" where
  "request_options c config =
     \<lparr>req_method = http_method config,
      req_headers = defaultHeaders c ++ spread (headers config),
      req_body =
        (if truthy (read_prop (body config)) \<and> http_method config \<noteq> GET
         then Some (JSON_stringify (read_prop (body config))) else None)\<rparr>"

definition request ::
  "transport \<Rightarrow> ApiClient \<Rightarrow> string \<Rightarrow> RequestConfig \<Rightarrow> host \<Rightarrow> (ApiError + ApiResponse) \<times> host" where
  "request f c endpoint config h =
     (let url = baseUrl c @ endpoint;
          tmo = num_or (timeout config) (defaultTimeout c);
          h0 = h\<lparr>timers := timers h @ [tmo]\<rparr>;
          options = request_options c config
      in case fetchWithRetry f url options (num_or (retries config) 0)
                (num_or (retryDelay config) 1000) h0 of
           (Inl error, h1) \<Rightarrow> (Inl (classify error), h1)
         | (Inr response, h1) \<Rightarrow>
             (case resp_json response of
                Inl error \<Rightarrow> (Inl (classify error), h1)
              | Inr d \<Rightarrow>
                  if \<not> ok response
                  then (Inl (classify (Api (ApiError
                          (''HTTP '' @ show_int (resp_status response) @ '': '' @ resp_statusText response)
                          (resp_status response) (Some d)))), h1)
                  else (Inr \<lparr>api_data = d, api_status = resp_status response,
                              api_statusText = resp_statusText response,
                              api_headers = parseHeaders (resp_headers response)\<rparr>, h1)))"

subsection \<open>The cache\<close>

definition getCacheKey :: "string \<Rightarrow> RequestConfig \<Rightarrow> string" where
  "getCacheKey endpoint config =
     method_name (http_method config) @ '':'' @ endpoint @ '':'' @
       JSON_stringify (or_empty_object (read_prop (body config)))"

text \<open>\<open>getFromCache\<close> at the clock reading \<open>now\<close>; \<open>None\<close> is the returned \<open>null\<close>.\<close>

definition getFromCache :: "int \<Rightarrow> string \<Rightarrow> ApiClient \<Rightarrow> jsval option \<times> ApiClient" where
  "getFromCache now key c =
     (case cache c key of
        None \<Rightarrow> (None, c)
      | Some entry \<Rightarrow>
          if now > expiresAt entry then (None, c\<lparr>cache := (cache c)(key := None)\<rparr>)
          else (Some (data entry), c))"

definition saveToCache :: "int \<Rightarrow> string \<Rightarrow> jsval \<Rightarrow> int \<Rightarrow> ApiClient \<Rightarrow> ApiClient" where
  "saveToCache now key d ttl c =
     c\<lparr>cache := (cache c)(key \<mapsto> \<lparr>data = d, timestamp = now, expiresAt = now + ttl\<rparr>)\<rparr>"

definition clearCache :: "ApiClient \<Rightarrow> ApiClient" where
  "clearCache c = c\<lparr>cache := Map.empty\<rparr>"

subsection \<open>HTTP method helpers\<close>

text \<open>
  Each entry point spreads the caller's \<open>config\<close> after its own fields, so a field
  that \<open>config\<close> has replaces the entry point's.
\<close>

text \<open>\<open>{ method: m, ...config }\<close>, of \<open>get\<close> and \<open>delete\<close>.\<close>

definition with_method :: "HttpMethod \<Rightarrow> PartialConfig \<Rightarrow> RequestConfig" where
  "with_method m config =
     \<lparr>http_method = (case p_method config of Some m' \<Rightarrow> m' | None \<Rightarrow> m),
      headers = p_headers config,
      body = p_body config,
      timeout = p_timeout config,
      retries = p_retries config,
      retryDelay = p_retryDelay config\<rparr>"

text \<open>\<open>{ method: m, body, ...config }\<close>, of \<open>post\<close>, \<open>put\<close> and \<open>patch\<close>.\<close>

definition with_method_body :: "HttpMethod \<Rightarrow> jsval \<Rightarrow> PartialConfig \<Rightarrow> RequestConfig" where
  "with_method_body m b config =
     \<lparr>http_method = (case p_method config of Some m' \<Rightarrow> m' | None \<Rightarrow> m),
      headers = p_headers config,
      body = (case p_body config of Some b' \<Rightarrow> Some b' | None \<Rightarrow> Some b),
      timeout = p_timeout config,
      retries = p_retries config,
      retryDelay = p_retryDelay config\<rparr>"

text \<open>\<open>if (cacheTtl)\<close> on the optional number.\<close>

fun ttl_given :: "int option \<Rightarrow> bool" where
  "ttl_given None = False"
| "ttl_given (Some t) = (t \<noteq> 0)"

text \<open>\<open>if (cached)\<close> on what \<open>getFromCache\<close> returned.\<close>

fun cached_truthy :: "jsval option \<Rightarrow> bool" where
  "cached_truthy None = False"
| "cached_truthy (Some v) = truthy v"

text \<open>The tail of every entry point: \<open>return response.data\<close>, or the error goes on.\<close>

fun unwrap :: "(ApiError + ApiResponse) \<times> host \<Rightarrow> ApiClient \<Rightarrow> (ApiError + jsval) \<times> ApiClient \<times> host" where
  "unwrap (Inl e, h) c = (Inl e, c, h)"
| "unwrap (Inr response, h) c = (Inr (api_data response), c, h)"

text \<open>
  \<open>get\<close>; \<open>now\<close> is the clock reading of the lookup and \<open>now'\<close> that of the save.
\<close>

definition get ::
  "transport \<Rightarrow> int \<Rightarrow> int \<Rightarrow> string \<Rightarrow> PartialConfig \<Rightarrow> int option \<Rightarrow> ApiClient \<times> host
     \<Rightarrow> (ApiError + jsval) \<times> ApiClient \<times> host" where
  "get f now now' endpoint config cacheTtl s =
     (let c = fst s; h = snd s; fullConfig = with_method GET config in
      if ttl_given cacheTtl then
        (let cacheKey = getCacheKey endpoint fullConfig;
             (cached, c1) = getFromCache now cacheKey c
         in if cached_truthy cached then (Inr (the cached), c1, h)
            else (case request f c1 endpoint fullConfig h of
                    (Inl e, h1) \<Rightarrow> (Inl e, c1, h1)
                  | (Inr response, h1) \<Rightarrow>
                      (Inr (api_data response),
                       saveToCache now' cacheKey (api_data response) (the cacheTtl) c1, h1)))
      else unwrap (request f c endpoint fullConfig h) c)"

definition post ::
  "transport \<Rightarrow> string \<Rightarrow> jsval \<Rightarrow> PartialConfig \<Rightarrow> ApiClient \<times> host
     \<Rightarrow> (ApiError + jsval) \<times> ApiClient \<times> host" where
  "post f endpoint b config s =
     unwrap (request f (fst s) endpoint (with_method_body POST b config) (snd s)) (fst s)"

definition put ::
  "transport \<Rightarrow> string \<Rightarrow> jsval \<Rightarrow> PartialConfig \<Rightarrow> ApiClient \<times> host
     \<Rightarrow> (ApiError + jsval) \<times> ApiClient \<times> host" where
  "put f endpoint b config s =
     unwrap (request f (fst s) endpoint (with_method_body PUT b config) (snd s)) (fst s)"

definition patch ::
  "transport \<Rightarrow> string \<Rightarrow> jsval \<Rightarrow> PartialConfig \<Rightarrow> ApiClient \<times> host
     \<Rightarrow> (ApiError + jsval) \<times> ApiClient \<times> host" where
  "patch f endpoint b config s =
     unwrap (request f (fst s) endpoint (with_method_body PATCH b config) (snd s)) (fst s)"

definition delete ::
  "transport \<Rightarrow> string \<Rightarrow> PartialConfig \<Rightarrow> ApiClient \<times> host
     \<Rightarrow> (ApiError + jsval) \<times> ApiClient \<times> host" where
  "delete f endpoint config s =
     unwrap (request f (fst s) endpoint (with_method DELETE config) (snd s)) (fst s)"

text \<open>
  The public operations as data, and the function that runs one: this is how the
  theorems below speak about every public operation at once. \<open>clearCache\<close> returns
  nothing, which is \<open>undefined\<close>.
\<close>

datatype call =
    Get string PartialConfig "int option"
  | Post string jsval PartialConfig
  | Put string jsval PartialConfig
  | Patch string jsval PartialConfig
  | Delete string PartialConfig
  | ClearCache

fun run ::
  "transport \<Rightarrow> int \<Rightarrow> int \<Rightarrow> call \<Rightarrow> ApiClient \<times> host \<Rightarrow> (ApiError + jsval) \<times> ApiClient \<times> host" where
  "run f now now' (Get endpoint config cacheTtl) s = get f now now' endpoint config cacheTtl s"
| "run f now now' (Post endpoint b config) s = post f endpoint b config s"
| "run f now now' (Put endpoint b config) s = put f endpoint b config s"
| "run f now now' (Patch endpoint b config) s = patch f endpoint b config s"
| "run f now now' (Delete endpoint config) s = delete f endpoint config s"
| "run f now now' ClearCache s = (Inr JUndefined, clearCache (fst s), snd s)"

text \<open>The \<open>config\<close> of a call.\<close>

fun call_config :: "call \<Rightarrow> PartialConfig" where
  "call_config (Get endpoint config cacheTtl) = config"
| "call_config (Post endpoint b config) = config"
| "call_config (Put endpoint b config) = config"
| "call_config (Patch endpoint b config) = config"
| "call_config (Delete endpoint config) = config"
| "call_config ClearCache = empty_config"


subsection \<open>Observing a call\<close>

text \<open>
  What the \<open>i\<close>-th invocation of the transport by one run of \<open>request\<close> gets
  (\<open>i = 0\<close> is the first attempt), the number of invocations between two states of
  the host, the requests sent and the waits made between them.
\<close>

definition attempt ::
  "transport \<Rightarrow> ApiClient \<Rightarrow> string \<Rightarrow> RequestConfig \<Rightarrow> host \<Rightarrow> nat \<Rightarrow> thrown + Response" where
  "attempt f c endpoint config h i =
     settle (f (length (fetched h) + i) (baseUrl c @ endpoint) (request_options c config))"

definition invocations :: "host \<Rightarrow> host \<Rightarrow> nat" where
  "invocations h h' = length (fetched h') - length (fetched h)"

definition sent :: "host \<Rightarrow> host \<Rightarrow> (string \<times> RequestInit) list" where
  "sent h h' = drop (length (fetched h)) (fetched h')"

definition waits :: "host \<Rightarrow> host \<Rightarrow> int list" where
  "waits h h' = drop (length (slept h)) (slept h')"

subsection \<open>Example clients, configurations and transports\<close>

definition client0 :: ApiClient where
  "client0 = new_ApiClient ''https://api.test.com/'' Map.empty"

definition config0 :: RequestConfig where
  "config0 = \<lparr>http_method = GET, headers = None, body = None, timeout = None, retries = None,
     retryDelay = None\<rparr>"

definition responds :: "int \<Rightarrow> string \<Rightarrow> jsval \<Rightarrow> transport" where
  "responds st txt d = (\<lambda>i url options.
     Resolves \<lparr>resp_status = st, resp_statusText = txt, resp_headers = [], resp_json = Inr d\<rparr>)"

definition always_pending :: transport where
  "always_pending = (\<lambda>i url options. Pending)"

definition always_fails :: transport where
  "always_fails = (\<lambda>i url options. Rejects (JsError ''TypeError'' ''fetch failed''))"


text \<open>
  Refuses the connection five times; the sixth invocation comes after the call's timer
  has fired and is rejected by the abort.
\<close>

definition refused_then_aborted :: transport where
  "refused_then_aborted = (\<lambda>i url options.
     if i < 5 then Rejects (JsError ''TypeError'' ''fetch failed'') else Rejects abort_error)"


text \<open>
  A transport that answers every request with the number \<open>0\<close>, and two \<open>get\<close> calls
  of the same endpoint with a TTL of a minute, the second one a second after the first.
\<close>

definition zero_count :: transport where
  "zero_count = responds 200 ''OK'' (JNum 0)"

definition first_get :: "(ApiError + jsval) \<times> ApiClient \<times> host" where
  "first_get = get zero_count 1000 1005 ''/count'' empty_config (Some 60000) (client0, host0)"

definition second_get :: "(ApiError + jsval) \<times> ApiClient \<times> host" where
  "second_get = get zero_count 2000 2005 ''/count'' empty_config (Some 60000) (snd first_get)"

text \<open>A per-call \<open>config\<close> with a \<open>Content-Type\<close> of its own.\<close>

definition text_plain :: PartialConfig where
  "text_plain = empty_config\<lparr>p_headers := Some [''Content-Type'' \<mapsto> ''text/plain'']\<rparr>"


section \<open>The retry wrapper\<close>

text \<open>
  The log that one run of \<open>fetchWithRetry\<close> leaves: some number \<open>m\<close> of retries, at
  most \<open>n\<close>, each after a wait twice as long as the one before, and the result is
  what the last invocation got.
\<close>

lemma backoff_shift:
  "d # map (\<lambda>k. d * 2 * 2 ^ k) [0..<m] = map (\<lambda>k. (d::int) * 2 ^ k) [0..<Suc m]"
proof -
  have "[0..<Suc m] = 0 # map Suc [0..<m]"
    by (simp add: upt_conv_Cons map_Suc_upt del: upt_Suc)
  then show ?thesis by (simp add: comp_def del: upt_Suc)
qed

lemma fetchWithRetry_all_throw:
  "(\<And>i. i \<le> nat n \<Longrightarrow> \<exists>e. settle (f (length (fetched h) + i) url options) = Inl e) \<Longrightarrow>
   fetchWithRetry f url options n delay h =
     (settle (f (length (fetched h) + nat n) url options),
      h\<lparr>fetched := fetched h @ replicate (nat n + 1) (url, options),
        slept := slept h @ map (\<lambda>k. delay * 2 ^ k) [0..<nat n]\<rparr>)"
proof (induction f url options n delay h rule: fetchWithRetry.induct)
  case (1 f url options n delay h)
  from "1.prems"[of 0] obtain e where e: "settle (f (length (fetched h)) url options) = Inl e"
    by auto
  show ?case
  proof (cases "n > 0")
    case False
    then show ?thesis using e
      by (subst fetchWithRetry.simps) (simp add: Let_def)
  next
    case True
    let ?h2 = "h\<lparr>fetched := fetched h @ [(url, options)], slept := slept h @ [delay]\<rparr>"
    have shift: "\<And>i. i \<le> nat (n - 1) \<Longrightarrow> \<exists>e. settle (f (length (fetched ?h2) + i) url options) = Inl e"
    proof -
      fix i assume "i \<le> nat (n - 1)"
      then have "Suc i \<le> nat n" using True by linarith
      from "1.prems"[OF this] show "\<exists>e. settle (f (length (fetched ?h2) + i) url options) = Inl e"
        by simp
    qed
    have n1: "nat n = Suc (nat (n - 1))" using True by linarith
    have ih: "fetchWithRetry f url options (n - 1) (delay * 2) ?h2 =
      (settle (f (length (fetched ?h2) + nat (n - 1)) url options),
       ?h2\<lparr>fetched := fetched ?h2 @ replicate (nat (n - 1) + 1) (url, options),
         slept := slept ?h2 @ map (\<lambda>k. delay * 2 * 2 ^ k) [0..<nat (n - 1)]\<rparr>)"
      using "1.IH"[OF refl e True] shift by simp
    show ?thesis
      apply (subst fetchWithRetry.simps)
      apply (simp add: Let_def e True ih del: upt_Suc replicate_Suc)
      apply (simp add: n1 backoff_shift replicate_append_same del: upt_Suc)
      done
  qed
qed


lemma fetchWithRetry_log:
  "fetchWithRetry f url options n delay h = (r, h') \<Longrightarrow>
   \<exists>m. m \<le> nat n \<and>
       h' = h\<lparr>fetched := fetched h @ replicate (Suc m) (url, options),
              slept := slept h @ map (\<lambda>k. delay * 2 ^ k) [0..<m]\<rparr> \<and>
       r = settle (f (length (fetched h) + m) url options)"
proof (induction f url options n delay h arbitrary: r h' rule: fetchWithRetry.induct)
  case (1 f url options n delay h)
  show ?case
  proof (cases "settle (f (length (fetched h)) url options)")
    case (Inr response)
    with "1.prems" have "h' = h\<lparr>fetched := fetched h @ [(url, options)]\<rparr>" and "r = Inr response"
      by (simp_all add: fetchWithRetry.simps[of f url options n delay h] Let_def)
    then show ?thesis using Inr by (intro exI[of _ 0]) simp
  next
    case (Inl e)
    show ?thesis
    proof (cases "n > 0")
      case False
      with Inl "1.prems" have "h' = h\<lparr>fetched := fetched h @ [(url, options)]\<rparr>" and "r = Inl e"
        by (simp_all add: fetchWithRetry.simps[of f url options n delay h] Let_def)
      then show ?thesis using Inl by (intro exI[of _ 0]) simp
    next
      case True
      let ?h2 = "h\<lparr>fetched := fetched h @ [(url, options)], slept := slept h @ [delay]\<rparr>"
      from Inl True "1.prems" have rec: "fetchWithRetry f url options (n - 1) (delay * 2) ?h2 = (r, h')"
        by (simp add: fetchWithRetry.simps[of f url options n delay h] Let_def)
      from "1.IH"[OF refl Inl True] rec obtain m where m: "m \<le> nat (n - 1)"
        and h': "h' = ?h2\<lparr>fetched := fetched ?h2 @ replicate (Suc m) (url, options),
              slept := slept ?h2 @ map (\<lambda>k. delay * 2 * 2 ^ k) [0..<m]\<rparr>"
        and r: "r = settle (f (length (fetched ?h2) + m) url options)"
        by auto
      have "Suc m \<le> nat n" using m True by linarith
      moreover have "h' = h\<lparr>fetched := fetched h @ replicate (Suc (Suc m)) (url, options),
              slept := slept h @ map (\<lambda>k. delay * 2 ^ k) [0..<Suc m]\<rparr>"
        using h' backoff_shift[of delay m] by (simp add: replicate_append_same del: upt_Suc)
      moreover have "r = settle (f (length (fetched h) + Suc m) url options)"
        using r by simp
      ultimately show ?thesis by blast
    qed
  qed
qed



lemma request_all_throw:
  assumes "\<And>i. i \<le> nat (num_or (retries config) 0) \<Longrightarrow> \<exists>e. attempt f c endpoint config h i = Inl e"
  shows "request f c endpoint config h =
     (Inl (classify (projl (attempt f c endpoint config h (nat (num_or (retries config) 0))))),
      h\<lparr>timers := timers h @ [num_or (timeout config) (defaultTimeout c)],
        fetched := fetched h @ replicate (nat (num_or (retries config) 0) + 1)
                     (baseUrl c @ endpoint, request_options c config),
        slept := slept h @ map (\<lambda>k. num_or (retryDelay config) 1000 * 2 ^ k)
                     [0..<nat (num_or (retries config) 0)]\<rparr>)"
proof -
  let ?h0 = "h\<lparr>timers := timers h @ [num_or (timeout config) (defaultTimeout c)]\<rparr>"
  let ?n = "num_or (retries config) 0"
  have "\<And>i. i \<le> nat ?n \<Longrightarrow>
      \<exists>e. settle (f (length (fetched ?h0) + i) (baseUrl c @ endpoint) (request_options c config)) = Inl e"
    using assms by (simp add: attempt_def)
  from fetchWithRetry_all_throw[of ?n f ?h0 "baseUrl c @ endpoint" "request_options c config", OF this]
  have fw: "fetchWithRetry f (baseUrl c @ endpoint) (request_options c config) ?n
              (num_or (retryDelay config) 1000) ?h0 =
        (attempt f c endpoint config h (nat ?n),
         ?h0\<lparr>fetched := fetched ?h0 @ replicate (nat ?n + 1) (baseUrl c @ endpoint, request_options c config),
            slept := slept ?h0 @ map (\<lambda>k. num_or (retryDelay config) 1000 * 2 ^ k) [0..<nat ?n]\<rparr>)"
    by (simp add: attempt_def)
  from assms[of "nat ?n"] obtain e where e: "attempt f c endpoint config h (nat ?n) = Inl e"
    by auto
  show ?thesis
    unfolding request_def Let_def fw by (simp add: e del: replicate_Suc upt_Suc)
qed





text \<open>
  Claim C6, as stated, fails when the last failure is the abort. With the defaults and
  \<open>retries = 5\<close> the waits add up to 31000, more than the timer's 30000: a transport that
  refuses every connection is invoked a sixth time with the signal aborted, all six
  attempts throw, and the call raises \<open>ApiError\<close> with status \<open>408\<close>, not \<open>0\<close>.
\<close>

theorem exhaustion_ends_in_timeout:
  "map (attempt refused_then_aborted client0 ''/users'' (config0\<lparr>retries := Some 5\<rparr>) host0) [0, 1, 2, 3, 4, 5]
     = [Inl (JsError ''TypeError'' ''fetch failed''), Inl (JsError ''TypeError'' ''fetch failed''),
        Inl (JsError ''TypeError'' ''fetch failed''), Inl (JsError ''TypeError'' ''fetch failed''),
        Inl (JsError ''TypeError'' ''fetch failed''),
        Inl (JsError ''AbortError'' ''This operation was aborted'')]
   \<and> invocations host0 (snd (request refused_then_aborted client0 ''/users'' (config0\<lparr>retries := Some 5\<rparr>) host0)) = 6
   \<and> waits host0 (snd (request refused_then_aborted client0 ''/users'' (config0\<lparr>retries := Some 5\<rparr>) host0))
       = [1000, 2000, 4000, 8000, 16000]
   \<and> timers (snd (request refused_then_aborted client0 ''/users'' (config0\<lparr>retries := Some 5\<rparr>) host0)) = [30000]
   \<and> fst (request refused_then_aborted client0 ''/users'' (config0\<lparr>retries := Some 5\<rparr>) host0)
       = Inl (ApiError ''Request timeout'' 408 None)"
  by (simp add: attempt_def request_def fetchWithRetry.simps refused_then_aborted_def abort_error_def host0_def
        invocations_def waits_def config0_def client0_def new_ApiClient_def Let_def)

text \<open>
  Claim C6, amended. With \<open>retries = n\<close> and a transport that throws at every attempt,
  the transport is invoked exactly \<open>n + 1\<close> times, and when the last failure is an
  \<open>Error\<close> other than the abort, the call raises \<open>ApiError\<close> with status \<open>0\<close> and that
  failure's message.
\<close>

theorem retry_exhaustion:
  assumes "retries config = Some (int n)"
    and "\<And>i. i \<le> n \<Longrightarrow> \<exists>e. attempt f c endpoint config h i = Inl e"
    and "request f c endpoint config h = (r, h')"
  shows "invocations h h' = n + 1
         \<and> (\<forall>name msg. attempt f c endpoint config h n = Inl (JsError name msg) \<and> name \<noteq> ''AbortError''
               \<longrightarrow> r = Inl (ApiError msg 0 None))"
proof -
  have n: "nat (num_or (retries config) 0) = n" using assms(1) by simp
  have "\<And>i. i \<le> nat (num_or (retries config) 0) \<Longrightarrow> \<exists>e. attempt f c endpoint config h i = Inl e"
    using assms(2) n by simp
  from request_all_throw[OF this] assms(3) n 
  have r: "r = Inl (classify (projl (attempt f c endpoint config h n)))"
    and inv: "invocations h h' = n + 1"
    by (simp_all add: invocations_def del: replicate_Suc upt_Suc)
  show ?thesis
  proof (intro conjI allI impI)
    show "invocations h h' = n + 1" by (rule inv)
  next
    fix name msg
    assume "attempt f c endpoint config h n = Inl (JsError name msg) \<and> name \<noteq> ''AbortError''"
    with r show "r = Inl (ApiError msg 0 None)" by simp
  qed
qed

theorem retry_exhaustion_witness:
  "retries (config0\<lparr>retries := Some 2\<rparr>) = Some (int 2)
   \<and> attempt always_fails client0 ''/users'' (config0\<lparr>retries := Some 2\<rparr>) host0 2
       = Inl (JsError ''TypeError'' ''fetch failed'')
   \<and> invocations host0 (snd (request always_fails client0 ''/users'' (config0\<lparr>retries := Some 2\<rparr>) host0)) = 3
   \<and> fst (request always_fails client0 ''/users'' (config0\<lparr>retries := Some 2\<rparr>) host0)
       = Inl (ApiError ''fetch failed'' 0 None)"
proof -
  let ?cfg = "config0\<lparr>retries := Some 2\<rparr>"
  let ?res = "request always_fails client0 ''/users'' ?cfg host0"
  have a: "retries ?cfg = Some (int 2)" by simp
  have b: "\<And>i. i \<le> 2 \<Longrightarrow> \<exists>e. attempt always_fails client0 ''/users'' ?cfg host0 i = Inl e"
    by (simp add: attempt_def always_fails_def)
  have c: "attempt always_fails client0 ''/users'' ?cfg host0 2 = Inl (JsError ''TypeError'' ''fetch failed'')"
    by (simp add: attempt_def always_fails_def)
  have d: "''TypeError'' \<noteq> ''AbortError''" by simp
  have e: "?res = (fst ?res, snd ?res)" by simp
  from retry_exhaustion[OF a b e] c d
  have "invocations host0 (snd ?res) = 3" and "fst ?res = Inl (ApiError ''fetch failed'' 0 None)"
    by auto
  with a c show ?thesis by simp
qed

section \<open>Error classification\<close>




section \<open>The timeout\<close>

text \<open>
  Claim C1, as stated, fails: the retry wrapper catches the abort as it catches every
  thrown value. With \<open>retries = 2\<close> and a first attempt that is pending when the timer
  fires, the transport is invoked three times, after waits of 1000 and 2000.
\<close>

theorem timeout_is_retried:
  "always_pending 0 (baseUrl client0 @ ''/users'') (request_options client0 (config0\<lparr>retries := Some 2\<rparr>))
     = Pending
   \<and> invocations host0 (snd (request always_pending client0 ''/users'' (config0\<lparr>retries := Some 2\<rparr>) host0)) = 3
   \<and> invocations host0 (snd (request always_pending client0 ''/users'' (config0\<lparr>retries := Some 2\<rparr>) host0)) \<noteq> 1
   \<and> waits host0 (snd (request always_pending client0 ''/users'' (config0\<lparr>retries := Some 2\<rparr>) host0))
       = [1000, 2000]"
  by (simp add: request_def fetchWithRetry.simps always_pending_def host0_def invocations_def
      waits_def config0_def Let_def)

text \<open>
  Claim C1, amended. When the timer fires before the first attempt settles, the retry
  wrapper invokes the transport once more for each retry it has (\<open>retries || 0\<close>, so
  none when \<open>retries\<close> is absent or \<open>0\<close>); when each of these attempts is rejected by
  the abort too, the call raises \<open>ApiError\<close> with status \<open>408\<close> and message
  \<open>Request timeout\<close>.
\<close>

theorem request_timeout:
  assumes "f (length (fetched h)) (baseUrl c @ endpoint) (request_options c config) = Pending"
    and "\<And>i. 1 \<le> i \<Longrightarrow> i \<le> nat (num_or (retries config) 0) \<Longrightarrow>
           \<exists>msg. attempt f c endpoint config h i = Inl (JsError ''AbortError'' msg)"
    and "request f c endpoint config h = (r, h')"
  shows "r = Inl (ApiError ''Request timeout'' 408 None)
         \<and> invocations h h' = nat (num_or (retries config) 0) + 1"
proof -
  let ?n = "nat (num_or (retries config) 0)"
  have first: "attempt f c endpoint config h 0 = Inl abort_error"
    using assms(1) by (simp add: attempt_def)
  have every: "\<exists>msg. attempt f c endpoint config h i = Inl (JsError ''AbortError'' msg)" if "i \<le> ?n" for i
  proof (cases "i = 0")
    case True
    then show ?thesis using first by (simp add: abort_error_def)
  next
    case False
    then show ?thesis using assms(2)[of i] that by simp
  qed
  then have "\<And>i. i \<le> ?n \<Longrightarrow> \<exists>e. attempt f c endpoint config h i = Inl e"
    by blast
  from request_all_throw[OF this] assms(3) every[of ?n] show ?thesis
    by (auto simp add: invocations_def simp del: replicate_Suc upt_Suc)
qed

theorem request_timeout_witness:
  "always_pending (length (fetched host0)) (baseUrl client0 @ ''/users'')
       (request_options client0 (config0\<lparr>retries := Some 2\<rparr>)) = Pending
   \<and> attempt always_pending client0 ''/users'' (config0\<lparr>retries := Some 2\<rparr>) host0 2
       = Inl (JsError ''AbortError'' ''This operation was aborted'')
   \<and> fst (request always_pending client0 ''/users'' (config0\<lparr>retries := Some 2\<rparr>) host0)
       = Inl (ApiError ''Request timeout'' 408 None)
   \<and> invocations host0 (snd (request always_pending client0 ''/users'' (config0\<lparr>retries := Some 2\<rparr>) host0)) = 3"
proof -
  let ?cfg = "config0\<lparr>retries := Some 2\<rparr>"
  let ?res = "request always_pending client0 ''/users'' ?cfg host0"
  have a: "always_pending (length (fetched host0)) (baseUrl client0 @ ''/users'') (request_options client0 ?cfg) = Pending"
    by (simp add: always_pending_def)
  have b: "\<And>i. 1 \<le> i \<Longrightarrow> i \<le> nat (num_or (retries ?cfg) 0) \<Longrightarrow>
           \<exists>msg. attempt always_pending client0 ''/users'' ?cfg host0 i = Inl (JsError ''AbortError'' msg)"
    by (simp add: attempt_def always_pending_def abort_error_def)
  have c: "?res = (fst ?res, snd ?res)" by simp
  have d: "nat (num_or (retries ?cfg) 0) = 2" by simp
  have e: "attempt always_pending client0 ''/users'' ?cfg host0 2
       = Inl (JsError ''AbortError'' ''This operation was aborted'')"
    by (simp add: attempt_def always_pending_def abort_error_def)
  from request_timeout[OF a b c] a d e show ?thesis by simp
qed





section \<open>The entry points\<close>

text \<open>
  The requests one call sends are copies of one request: the URL and the options that
  \<open>request\<close> built from the client and the configuration.
\<close>

lemma request_sent:
  assumes "request f c endpoint config h = (r, h')"
  shows "\<exists>m. sent h h' = replicate (Suc m) (baseUrl c @ endpoint, request_options c config)"
proof -
  let ?h0 = "h\<lparr>timers := timers h @ [num_or (timeout config) (defaultTimeout c)]\<rparr>"
  obtain x h1 where fw: "fetchWithRetry f (baseUrl c @ endpoint) (request_options c config)
      (num_or (retries config) 0) (num_or (retryDelay config) 1000) ?h0 = (x, h1)"
    by (cases "fetchWithRetry f (baseUrl c @ endpoint) (request_options c config)
      (num_or (retries config) 0) (num_or (retryDelay config) 1000) ?h0")
  from fetchWithRetry_log[OF fw] obtain m where
    "fetched h1 = fetched h @ replicate (Suc m) (baseUrl c @ endpoint, request_options c config)"
    by auto
  moreover have "h' = h1"
    using assms by (simp add: request_def Let_def fw split: sum.splits if_splits)
  ultimately show ?thesis by (auto simp add: sent_def)
qed


lemma unwrap_sent:
  assumes "unwrap (request f c endpoint config h) c0 = (r, c', h')"
  shows "c' = c0 \<and> (\<exists>m. sent h h' = replicate (Suc m) (baseUrl c @ endpoint, request_options c config))"
proof -
  obtain x h1 where rq: "request f c endpoint config h = (x, h1)"
    by (cases "request f c endpoint config h")
  from assms have "c' = c0" and "h' = h1"
    by (cases x; simp add: rq)+
  with request_sent[OF rq] show ?thesis by simp
qed

lemma getFromCache_client:
  "getFromCache now key c = (v, c1) \<Longrightarrow>
     baseUrl c1 = baseUrl c \<and> defaultHeaders c1 = defaultHeaders c \<and> defaultTimeout c1 = defaultTimeout c"
  by (auto simp add: getFromCache_def split: option.splits if_splits)

lemma get_sent:
  assumes "get f now now' endpoint config cacheTtl (c, h) = (r, c', h')"
  shows "sent h h' = [] \<or>
     (\<exists>m. sent h h' = replicate (Suc m)
        (baseUrl c @ endpoint,
         \<lparr>req_method = http_method (with_method GET config),
          req_headers = defaultHeaders c ++ spread (p_headers config),
          req_body = req_body (request_options c (with_method GET config))\<rparr>))"
proof (cases "ttl_given cacheTtl")
  case False
  with assms have "unwrap (request f c endpoint (with_method GET config) h) c = (r, c', h')"
    by (simp add: get_def Let_def)
  from unwrap_sent[OF this] show ?thesis
    by (auto simp add: request_options_def with_method_def)
next
  case True
  obtain v c1 where gc: "getFromCache now (getCacheKey endpoint (with_method GET config)) c = (v, c1)"
    by (cases "getFromCache now (getCacheKey endpoint (with_method GET config)) c")
  note same = getFromCache_client[OF gc]
  show ?thesis
  proof (cases "cached_truthy v")
    case hit: True
    with True assms gc have "h' = h" by (simp add: get_def Let_def)
    then show ?thesis by (simp add: sent_def)
  next
    case miss: False
    obtain x h1 where rq: "request f c1 endpoint (with_method GET config) h = (x, h1)"
      by (cases "request f c1 endpoint (with_method GET config) h")
    from True miss assms gc rq have "h' = h1"
      by (cases x) (simp_all add: get_def Let_def)
    with request_sent[OF rq] same show ?thesis
      by (auto simp add: request_options_def with_method_def)
  qed
qed

text \<open>
  Claim C10. Every request that a call sends for a client constructed with the default
  headers \<open>hdrs\<close> has the header map \<open>{"Content-Type": "application/json", ...hdrs,
  ...config.headers}\<close>: its \<open>Content-Type\<close> is the per-call value when there is one, else
  the construction-time value when there is one, else \<open>application/json\<close>.
\<close>

theorem content_type_header:
  assumes "run f now now' call ((new_ApiClient url hdrs)\<lparr>cache := m\<rparr>, h) = (r, c', h')"
    and "(u, options) \<in> set (sent h h')"
  shows "req_headers options =
           ([''Content-Type'' \<mapsto> ''application/json''] ++ hdrs) ++ spread (p_headers (call_config call))
         \<and> req_headers options ''Content-Type'' =
           Some (case spread (p_headers (call_config call)) ''Content-Type'' of
                   Some v \<Rightarrow> v
                 | None \<Rightarrow> (case hdrs ''Content-Type'' of Some v \<Rightarrow> v | None \<Rightarrow> ''application/json''))"
proof -
  let ?c = "(new_ApiClient url hdrs)\<lparr>cache := m\<rparr>"
  have dh: "defaultHeaders ?c = [''Content-Type'' \<mapsto> ''application/json''] ++ hdrs"
    by (simp add: new_ApiClient_def)
  have hd: "req_headers options = defaultHeaders ?c ++ spread (p_headers (call_config call))"
  proof (cases call)
    case (Get endpoint config cacheTtl)
    with assms(1) have "get f now now' endpoint config cacheTtl (?c, h) = (r, c', h')" by simp
    from get_sent[OF this] assms(2) Get show ?thesis by auto
  next
    case (Post endpoint b config)
    with assms(1) have "unwrap (request f ?c endpoint (with_method_body POST b config) h) ?c = (r, c', h')"
      by (simp add: post_def)
    from unwrap_sent[OF this] assms(2) Post show ?thesis
      by (auto simp add: request_options_def with_method_body_def)
  next
    case (Put endpoint b config)
    with assms(1) have "unwrap (request f ?c endpoint (with_method_body PUT b config) h) ?c = (r, c', h')"
      by (simp add: put_def)
    from unwrap_sent[OF this] assms(2) Put show ?thesis
      by (auto simp add: request_options_def with_method_body_def)
  next
    case (Patch endpoint b config)
    with assms(1) have "unwrap (request f ?c endpoint (with_method_body PATCH b config) h) ?c = (r, c', h')"
      by (simp add: patch_def)
    from unwrap_sent[OF this] assms(2) Patch show ?thesis
      by (auto simp add: request_options_def with_method_body_def)
  next
    case (Delete endpoint config)
    with assms(1) have "unwrap (request f ?c endpoint (with_method DELETE config) h) ?c = (r, c', h')"
      by (simp add: delete_def)
    from unwrap_sent[OF this] assms(2) Delete show ?thesis
      by (auto simp add: request_options_def with_method_def)
  next
    case ClearCache
    with assms(1) have "h' = h" by simp
    with assms(2) show ?thesis by (simp add: sent_def)
  qed
  show ?thesis
    unfolding hd dh
    by (simp add: map_add_def split: option.splits)
qed

theorem content_type_header_witness:
  "map (\<lambda>x. req_headers (snd x) ''Content-Type'')
     (sent host0 (snd (snd (run (responds 200 ''OK'' (JObj [])) 0 0
        (Post ''/posts'' (JObj [(''title'', JStr ''t'')]) text_plain)
        ((new_ApiClient ''https://api.test.com'' Map.empty)\<lparr>cache := Map.empty\<rparr>, host0)))))
   = [Some ''text/plain'']"
proof -
  let ?c = "(new_ApiClient ''https://api.test.com'' Map.empty)\<lparr>cache := Map.empty\<rparr>"
  let ?call = "Post ''/posts'' (JObj [(''title'', JStr ''t'')]) text_plain"
  let ?res = "run (responds 200 ''OK'' (JObj [])) 0 0 ?call (?c, host0)"
  let ?h' = "snd (snd ?res)"
  have len: "length (sent host0 ?h') = 1"
    by (simp add: post_def with_method_body_def request_def fetchWithRetry.simps responds_def
        host0_def ok_def sent_def Let_def)
  then obtain x where x: "sent host0 ?h' = [x]"
    by (cases "sent host0 ?h'") simp_all
  have a: "?res = (fst ?res, fst (snd ?res), ?h')" by simp
  have b: "(fst x, snd x) \<in> set (sent host0 ?h')" using x by simp
  from content_type_header[OF a b] have "req_headers (snd x) ''Content-Type'' = Some ''text/plain''"
    by (simp add: text_plain_def empty_config_def)
  with x show ?thesis by simp
qed

text \<open>
  Claim C3 holds of the entry points' documentation but not of the code: \<open>config\<close> is
  spread after \<open>method\<close>, so a \<open>config\<close> with a method replaces it. Here \<open>delete\<close>,
  called with \<open>{ method: "POST" }\<close>, sends a \<open>POST\<close>.
\<close>

theorem delete_sends_config_method:
  "map (\<lambda>x. req_method (snd x))
     (sent host0 (snd (snd (delete (responds 200 ''OK'' (JObj [])) ''/posts/1''
        (empty_config\<lparr>p_method := Some POST\<rparr>) (client0, host0)))))
   = [POST]"
  by (simp add: delete_def with_method_def empty_config_def client0_def new_ApiClient_def request_def
      request_options_def fetchWithRetry.simps responds_def host0_def ok_def sent_def Let_def)

section \<open>The cache\<close>

text \<open>A live entry with truthy data is returned, and nothing else happens.\<close>

lemma truthy_hit_avoids_network:
  assumes "ttl_given cacheTtl"
    and "cache c (getCacheKey endpoint (with_method GET config)) = Some entry"
    and "now \<le> expiresAt entry"
    and "truthy (data entry)"
  shows "get f now now' endpoint config cacheTtl (c, h) = (Inr (data entry), c, h)"
  using assms by (simp add: get_def getFromCache_def Let_def)

text \<open>What the first of the two example calls returns and leaves.\<close>

lemma first_get_eval:
  "first_get = (Inr (JNum 0),
     client0\<lparr>cache := [''GET:/count:{}'' \<mapsto> \<lparr>data = JNum 0, timestamp = 1005, expiresAt = 61005\<rparr>]\<rparr>,
     host0\<lparr>timers := [30000],
           fetched := [(''https://api.test.com/count'', request_options client0 config0)]\<rparr>)"
  by (simp add: first_get_def get_def with_method_def empty_config_def getCacheKey_def
      or_empty_object_def getFromCache_def client0_def new_ApiClient_def request_def
      request_options_def fetchWithRetry.simps zero_count_def responds_def host0_def ok_def
      saveToCache_def strip_trailing_slash_def config0_def Let_def)

text \<open>
  Claim C2 is what the cache is for, and the code misses it when the cached data is
  falsy: \<open>getFromCache\<close> finds the live entry and \<open>if (cached)\<close> takes its data, the
  number \<open>0\<close>, for a miss. The first call stores \<open>0\<close> until 61005; the second call, at
  2000, invokes the transport again.
\<close>

theorem falsy_hit_refetches:
  "fst first_get = Inr (JNum 0)
   \<and> cache (fst (snd first_get)) ''GET:/count:{}''
       = Some \<lparr>data = JNum 0, timestamp = 1005, expiresAt = 61005\<rparr>
   \<and> invocations (snd (snd first_get)) (snd (snd second_get)) = 1"
  unfolding second_get_def first_get_eval
  by (simp add: get_def with_method_def empty_config_def getCacheKey_def
      or_empty_object_def getFromCache_def client0_def new_ApiClient_def request_def
      request_options_def fetchWithRetry.simps zero_count_def responds_def host0_def ok_def
      saveToCache_def strip_trailing_slash_def invocations_def Let_def)

















end
